theory Spec2Isabelle
  imports Main "HOL-Library.Char_ord" "HOL-Library.List_Lexorder"
begin

section \<open>Python values, exceptions and documents\<close>

text \<open>
  The exceptions the modelled code can raise. \<open>ValidationError\<close> carries its message;
  \<open>Empty\<close> is \<open>queue.Empty\<close>.
\<close>

datatype error =
    TypeError
  | KeyError
  | AttributeError
  | ValueError
  | RuntimeError
  | Empty
  | ValidationError string

text \<open>
  The values a document field can hold (the JSON data model of the store): \<open>None\<close>,
  \<open>bool\<close>, \<open>int\<close>, \<open>str\<close>, \<open>list\<close> and \<open>dict\<close> with string keys. Python's
  \<open>float\<close> is left out. A \<open>dict\<close> is an association list in insertion order with
  distinct keys.
\<close>

datatype pyval =
    VNone
  | VBool bool
  | VInt int
  | VStr string
  | VList "pyval list"
  | VDict "(string \<times> pyval) list"

type_synonym document = "(string \<times> pyval) list"

text \<open>
  Python's \<open>==\<close> on these values: \<open>bool\<close> is a subclass of \<open>int\<close>
  (\<open>True == 1\<close>), lists compare element by element, dicts compare as unordered
  mappings. It never raises.
\<close>

fun py_eq :: "pyval \<Rightarrow> pyval \<Rightarrow> bool"
  and py_eq_list :: "pyval list \<Rightarrow> pyval list \<Rightarrow> bool"
  and py_dict_sub :: "(string \<times> pyval) list \<Rightarrow> (string \<times> pyval) list \<Rightarrow> bool"
where
  "py_eq VNone VNone = True"
| "py_eq (VBool a) (VBool b) = (a = b)"
| "py_eq (VBool a) (VInt b) = ((if a then 1 else 0) = b)"
| "py_eq (VInt a) (VBool b) = (a = (if b then 1 else 0))"
| "py_eq (VInt a) (VInt b) = (a = b)"
| "py_eq (VStr a) (VStr b) = (a = b)"
| "py_eq (VList a) (VList b) = py_eq_list a b"
| "py_eq (VDict a) (VDict b) = (length a = length b \<and> py_dict_sub a b)"
| "py_eq _ _ = False"
| "py_eq_list [] [] = True"
| "py_eq_list (x # xs) (y # ys) = (py_eq x y \<and> py_eq_list xs ys)"
| "py_eq_list _ _ = False"
| "py_dict_sub [] b = True"
| "py_dict_sub ((k, v) # a) b =
     ((case map_of b k of None \<Rightarrow> False | Some w \<Rightarrow> py_eq v w) \<and> py_dict_sub a b)"

text \<open>
  Python's \<open><\<close>: defined between numbers (\<open>bool\<close> counts as \<open>0\<close>/\<open>1\<close>), between
  strings and between lists (decided by the first pair of elements that are not
  \<open>==\<close>); every other pairing, \<open>None\<close> against \<open>None\<close> included, raises
  \<open>TypeError\<close>.
\<close>

fun py_lt :: "pyval \<Rightarrow> pyval \<Rightarrow> error + bool"
  and py_lt_list :: "pyval list \<Rightarrow> pyval list \<Rightarrow> error + bool"
where
  "py_lt (VInt a) (VInt b) = Inr (a < b)"
| "py_lt (VInt a) (VBool b) = Inr (a < (if b then 1 else 0))"
| "py_lt (VBool a) (VInt b) = Inr ((if a then 1 else 0) < b)"
| "py_lt (VBool a) (VBool b) = Inr (\<not> a \<and> b)"
| "py_lt (VStr a) (VStr b) = Inr (a < b)"
| "py_lt (VList a) (VList b) = py_lt_list a b"
| "py_lt _ _ = Inl TypeError"
| "py_lt_list [] [] = Inr False"
| "py_lt_list [] (y # ys) = Inr True"
| "py_lt_list (x # xs) [] = Inr False"
| "py_lt_list (x # xs) (y # ys) = (if py_eq x y then py_lt_list xs ys else py_lt x y)"

text \<open>\<open>a > b\<close> is \<open>b < a\<close>; \<open>a >= b\<close> negates \<open>a < b\<close> and raises where it raises.\<close>

definition py_gt :: "pyval \<Rightarrow> pyval \<Rightarrow> error + bool" where
  "py_gt a b = py_lt b a"

definition py_ge :: "pyval \<Rightarrow> pyval \<Rightarrow> error + bool" where
  "py_ge a b = (case py_lt a b of Inl e \<Rightarrow> Inl e | Inr r \<Rightarrow> Inr (\<not> r))"

definition py_le :: "pyval \<Rightarrow> pyval \<Rightarrow> error + bool" where
  "py_le a b = py_ge b a"

text \<open>\<open>hash(v)\<close> raises \<open>TypeError\<close> for lists and dicts.\<close>

fun hashable :: "pyval \<Rightarrow> bool" where
  "hashable (VList _) = False"
| "hashable (VDict _) = False"
| "hashable _ = True"

text \<open>Truth value of a Python object, as \<open>if v:\<close> tests it.\<close>

fun truthy :: "pyval \<Rightarrow> bool" where
  "truthy VNone = False"
| "truthy (VBool b) = b"
| "truthy (VInt i) = (i \<noteq> 0)"
| "truthy (VStr s) = (s \<noteq> [])"
| "truthy (VList xs) = (xs \<noteq> [])"
| "truthy (VDict kvs) = (kvs \<noteq> [])"

text \<open>
  \<open>doc.get(name)\<close> yields \<open>None\<close> for a missing key; \<open>d[k] = v\<close> overwrites in place
  or appends; \<open>d.update(other)\<close> assigns the entries of \<open>other\<close> in order.
\<close>

definition dict_get :: "document \<Rightarrow> string \<Rightarrow> pyval" where
  "dict_get doc name = (case map_of doc name of None \<Rightarrow> VNone | Some v \<Rightarrow> v)"

fun dict_set :: "('k \<times> 'v) list \<Rightarrow> 'k \<Rightarrow> 'v \<Rightarrow> ('k \<times> 'v) list" where
  "dict_set [] k v = [(k, v)]"
| "dict_set ((k', v') # d) k v = (if k' = k then (k, v) # d else (k', v') # dict_set d k v)"

fun dict_update :: "document \<Rightarrow> document \<Rightarrow> document" where
  "dict_update d [] = d"
| "dict_update d ((k, v) # other) = dict_update (dict_set d k v) other"

text \<open>
  \<open>value in container\<close>: element search with \<open>==\<close> in a list, substring search in a
  string (the left operand must be a string), key membership in a dict (the left
  operand is hashed); any other container raises \<open>TypeError\<close>.
\<close>

fun starts_with :: "string \<Rightarrow> string \<Rightarrow> bool" where
  "starts_with s [] = True"
| "starts_with [] (p # ps) = False"
| "starts_with (c # s) (p # ps) = (c = p \<and> starts_with s ps)"

fun has_substring :: "string \<Rightarrow> string \<Rightarrow> bool" where
  "has_substring [] sub = (sub = [])"
| "has_substring (c # s) sub = (starts_with (c # s) sub \<or> has_substring s sub)"

fun py_in :: "pyval \<Rightarrow> pyval \<Rightarrow> error + bool" where
  "py_in v (VList xs) = Inr (list_ex (\<lambda>x. py_eq x v) xs)"
| "py_in (VStr sub) (VStr s) = Inr (has_substring s sub)"
| "py_in v (VStr s) = Inl TypeError"
| "py_in (VStr k) (VDict d) = Inr (map_of d k \<noteq> None)"
| "py_in v (VDict d) = (if hashable v then Inr False else Inl TypeError)"
| "py_in v c = Inl TypeError"

section \<open>Queries (queries.py)\<close>

text \<open>
  A \<open>Query\<close> holds a test closure over a document; evaluating it may raise. The
  \<open>parent\<close> attribute is written by the constructors and read by nothing, so the
  record leaves it out. \<open>Field\<close> methods build the leaf queries.
\<close>

record Query =
  test :: "document \<Rightarrow> error + bool"

definition Query_init :: Query where
  "Query_init = \<lparr>test = (\<lambda>doc. Inr True)\<rparr>"

definition Field_eq :: "string \<Rightarrow> pyval \<Rightarrow> Query" where
  "Field_eq name v = \<lparr>test = (\<lambda>doc. Inr (py_eq (dict_get doc name) v))\<rparr>"

definition Field_ne :: "string \<Rightarrow> pyval \<Rightarrow> Query" where
  "Field_ne name v = \<lparr>test = (\<lambda>doc. Inr (\<not> py_eq (dict_get doc name) v))\<rparr>"

definition Field_gt :: "string \<Rightarrow> pyval \<Rightarrow> Query" where
  "Field_gt name v = \<lparr>test = (\<lambda>doc. py_gt (dict_get doc name) v)\<rparr>"

definition Field_lt :: "string \<Rightarrow> pyval \<Rightarrow> Query" where
  "Field_lt name v = \<lparr>test = (\<lambda>doc. py_lt (dict_get doc name) v)\<rparr>"

definition Field_ge :: "string \<Rightarrow> pyval \<Rightarrow> Query" where
  "Field_ge name v = \<lparr>test = (\<lambda>doc. py_ge (dict_get doc name) v)\<rparr>"

definition Field_le :: "string \<Rightarrow> pyval \<Rightarrow> Query" where
  "Field_le name v = \<lparr>test = (\<lambda>doc. py_le (dict_get doc name) v)\<rparr>"

text \<open>
  \<open>Field.matches\<close>: Python's \<open>re\<close> module and \<open>str()\<close> are library code; the
  parameter \<open>re_match pattern v\<close> stands for
  \<open>bool(re.compile(pattern).match(str(v)))\<close>.
\<close>

definition Field_matches :: "(string \<Rightarrow> pyval \<Rightarrow> bool) \<Rightarrow> string \<Rightarrow> string \<Rightarrow> Query" where
  "Field_matches re_match name pattern =
     \<lparr>test = (\<lambda>doc. Inr (re_match pattern (dict_get doc name)))\<rparr>"

definition Field_contains :: "string \<Rightarrow> pyval \<Rightarrow> Query" where
  "Field_contains name v =
     \<lparr>test = (\<lambda>doc. py_in v (case map_of doc name of None \<Rightarrow> VList [] | Some c \<Rightarrow> c))\<rparr>"

definition Field_exists :: "string \<Rightarrow> Query" where
  "Field_exists name = \<lparr>test = (\<lambda>doc. Inr (map_of doc name \<noteq> None))\<rparr>"

text \<open>\<open>and\<close> and \<open>or\<close> evaluate the right operand only when the left one does not decide.\<close>

definition Query_and :: "Query \<Rightarrow> Query \<Rightarrow> Query" where
  "Query_and self other =
     \<lparr>test = (\<lambda>doc. case test self doc of
                      Inl e \<Rightarrow> Inl e
                    | Inr b \<Rightarrow> if b then test other doc else Inr False)\<rparr>"

definition Query_or :: "Query \<Rightarrow> Query \<Rightarrow> Query" where
  "Query_or self other =
     \<lparr>test = (\<lambda>doc. case test self doc of
                      Inl e \<Rightarrow> Inl e
                    | Inr b \<Rightarrow> if b then Inr True else test other doc)\<rparr>"

definition Query_invert :: "Query \<Rightarrow> Query" where
  "Query_invert self =
     \<lparr>test = (\<lambda>doc. case test self doc of Inl e \<Rightarrow> Inl e | Inr b \<Rightarrow> Inr (\<not> b))\<rparr>"

definition Query_match :: "Query \<Rightarrow> document \<Rightarrow> error + bool" where
  "Query_match self doc = test self doc"

text \<open>The body of \<open>get_equality_conditions\<close> is \<open>return {}\<close>.\<close>

definition Query_get_equality_conditions :: "Query \<Rightarrow> document" where
  "Query_get_equality_conditions self = []"

text \<open>
  The store's operations take either a \<open>Query\<close> or any callable from documents to
  truth values.
\<close>

datatype query_arg = IsQuery Query | IsCallable "document \<Rightarrow> error + bool"

fun run_query :: "query_arg \<Rightarrow> document \<Rightarrow> error + bool" where
  "run_query (IsQuery q) doc = Query_match q doc"
| "run_query (IsCallable f) doc = f doc"

section \<open>Indexes (indexes.py)\<close>

text \<open>
  \<open>Index._index\<close> is a dict from value tuples to sets of positions. Tuple keys are
  equal when their components are \<open>==\<close>; looking a tuple up hashes it, which raises
  \<open>TypeError\<close> when a component is a list or a dict. The attribute \<open>fields\<close> is
  the record field \<open>field_names\<close>.
\<close>

record Index =
  field_names :: "string list"
  index :: "(pyval list \<times> nat set) list"

fun tuple_get :: "(pyval list \<times> 'a) list \<Rightarrow> pyval list \<Rightarrow> 'a option" where
  "tuple_get [] key = None"
| "tuple_get ((k, v) # m) key = (if py_eq_list k key then Some v else tuple_get m key)"

fun tuple_set :: "(pyval list \<times> 'a) list \<Rightarrow> pyval list \<Rightarrow> 'a \<Rightarrow> (pyval list \<times> 'a) list" where
  "tuple_set [] key v = [(key, v)]"
| "tuple_set ((k, v') # m) key v =
     (if py_eq_list k key then (k, v) # m else (k, v') # tuple_set m key v)"

fun tuple_del :: "(pyval list \<times> 'a) list \<Rightarrow> pyval list \<Rightarrow> (pyval list \<times> 'a) list" where
  "tuple_del [] key = []"
| "tuple_del ((k, v) # m) key = (if py_eq_list k key then m else (k, v) # tuple_del m key)"

definition Index_init :: "string list \<Rightarrow> Index" where
  "Index_init flds = \<lparr>field_names = flds, index = []\<rparr>"

text \<open>\<open>_get_key\<close>: the tuple of the indexed fields' values, \<open>None\<close> when one is missing.\<close>

definition Index_get_key :: "Index \<Rightarrow> document \<Rightarrow> pyval list option" where
  "Index_get_key self doc = those (map (map_of doc) (field_names self))"

text \<open>
  A method that mutates its object and may raise returns the exception or the
  result together with the object as the call left it.
\<close>

definition Index_add_document :: "Index \<Rightarrow> nat \<Rightarrow> document \<Rightarrow> (error + unit) \<times> Index" where
  "Index_add_document self doc_id doc =
     (case Index_get_key self doc of
        None \<Rightarrow> (Inr (), self)
      | Some key \<Rightarrow>
          if \<not> list_all hashable key then (Inl TypeError, self)
          else (Inr (), self\<lparr>index := tuple_set (index self) key
                  (insert doc_id (case tuple_get (index self) key of None \<Rightarrow> {} | Some S \<Rightarrow> S))\<rparr>))"

text \<open>Retracting a position from a bucket, and deleting the bucket when it is left empty.\<close>

definition discard :: "(pyval list \<times> nat set) list \<Rightarrow> pyval list \<Rightarrow> nat \<Rightarrow> (pyval list \<times> nat set) list" where
  "discard m key doc_id =
     (case tuple_get m key of
        None \<Rightarrow> m
      | Some S \<Rightarrow> if S - {doc_id} = {} then tuple_del m key else tuple_set m key (S - {doc_id}))"

definition Index_remove_document :: "Index \<Rightarrow> nat \<Rightarrow> document \<Rightarrow> (error + unit) \<times> Index" where
  "Index_remove_document self doc_id doc =
     (case Index_get_key self doc of
        None \<Rightarrow> (Inr (), self)
      | Some key \<Rightarrow>
          if \<not> list_all hashable key then (Inl TypeError, self)
          else (Inr (), self\<lparr>index := discard (index self) key doc_id\<rparr>))"

fun key_eq :: "pyval list option \<Rightarrow> pyval list option \<Rightarrow> bool" where
  "key_eq None None = True"
| "key_eq (Some a) (Some b) = py_eq_list a b"
| "key_eq _ _ = False"

definition Index_update_document :: "Index \<Rightarrow> nat \<Rightarrow> document \<Rightarrow> document \<Rightarrow> (error + unit) \<times> Index" where
  "Index_update_document self doc_id old_doc new_doc =
     (let old_key = Index_get_key self old_doc; new_key = Index_get_key self new_doc in
      if key_eq old_key new_key then (Inr (), self)
      else
        case (case old_key of
                None \<Rightarrow> (Inr (), self)
              | Some ok \<Rightarrow>
                  if \<not> list_all hashable ok then (Inl TypeError, self)
                  else (Inr (), self\<lparr>index := discard (index self) ok doc_id\<rparr>)) of
          (Inl e, self') \<Rightarrow> (Inl e, self')
        | (Inr u, self') \<Rightarrow>
            (case new_key of
               None \<Rightarrow> (Inr (), self')
             | Some nk \<Rightarrow>
                 if \<not> list_all hashable nk then (Inl TypeError, self')
                 else (Inr (), self'\<lparr>index := tuple_set (index self') nk
                         (insert doc_id (case tuple_get (index self') nk of None \<Rightarrow> {} | Some S \<Rightarrow> S))\<rparr>)))"

definition Index_find_one :: "(nat set \<Rightarrow> nat list) \<Rightarrow> Index \<Rightarrow> pyval list \<Rightarrow> error + nat option" where
  "Index_find_one iter self vals =
     (if \<not> list_all hashable vals then Inl TypeError
      else case tuple_get (index self) vals of
             None \<Rightarrow> Inr None
           | Some S \<Rightarrow> Inr (Some (hd (iter S))))"

definition Index_find_all :: "Index \<Rightarrow> pyval list \<Rightarrow> error + nat set" where
  "Index_find_all self vals =
     (if \<not> list_all hashable vals then Inl TypeError
      else case tuple_get (index self) vals of None \<Rightarrow> Inr {} | Some S \<Rightarrow> Inr S)"


section \<open>The index manager (indexes.py)\<close>

text \<open>
  \<open>IndexManager._indexes\<close>: a dict, in insertion order, from the sorted tuple of an
  index's field names to the index.
\<close>

type_synonym IndexManager = "(string list \<times> Index) list"

definition IndexManager_create_index :: "IndexManager \<Rightarrow> string list \<Rightarrow> IndexManager" where
  "IndexManager_create_index self flds =
     (let key = sort flds in
      if map_of self key = None then self @ [(key, Index_init flds)] else self)"

definition IndexManager_drop_index :: "IndexManager \<Rightarrow> string list \<Rightarrow> IndexManager" where
  "IndexManager_drop_index self flds = (let key = sort flds in filter (\<lambda>kv. fst kv \<noteq> key) self)"

definition IndexManager_has_index :: "IndexManager \<Rightarrow> string list \<Rightarrow> bool" where
  "IndexManager_has_index self flds = (map_of self (sort flds) \<noteq> None)"

definition IndexManager_get_index :: "IndexManager \<Rightarrow> string list \<Rightarrow> Index option" where
  "IndexManager_get_index self flds = map_of self (sort flds)"

text \<open>
  \<open>for index in self._indexes.values(): index.m(...)\<close>: the indexes are visited in
  order; an exception leaves the earlier ones changed and the later ones untouched.
\<close>

fun each_index :: "(Index \<Rightarrow> (error + unit) \<times> Index) \<Rightarrow> IndexManager \<Rightarrow> (error + unit) \<times> IndexManager" where
  "each_index m [] = (Inr (), [])"
| "each_index m ((key, ix) # rest) =
     (case m ix of
        (Inl e, ix') \<Rightarrow> (Inl e, (key, ix') # rest)
      | (Inr u, ix') \<Rightarrow> (case each_index m rest of (r, rest') \<Rightarrow> (r, (key, ix') # rest')))"

definition IndexManager_add_document :: "IndexManager \<Rightarrow> nat \<Rightarrow> document \<Rightarrow> (error + unit) \<times> IndexManager" where
  "IndexManager_add_document self doc_id doc = each_index (\<lambda>ix. Index_add_document ix doc_id doc) self"

definition IndexManager_remove_document :: "IndexManager \<Rightarrow> nat \<Rightarrow> document \<Rightarrow> (error + unit) \<times> IndexManager" where
  "IndexManager_remove_document self doc_id doc =
     each_index (\<lambda>ix. Index_remove_document ix doc_id doc) self"

definition IndexManager_update_document ::
  "IndexManager \<Rightarrow> nat \<Rightarrow> document \<Rightarrow> document \<Rightarrow> (error + unit) \<times> IndexManager" where
  "IndexManager_update_document self doc_id old_doc new_doc =
     each_index (\<lambda>ix. Index_update_document ix doc_id old_doc new_doc) self"

section \<open>Schema validation (schema.py)\<close>

text \<open>
  A collection's schema maps a field name to that field's schema, itself a dict
  read with \<open>.get("required", False)\<close> and \<open>.get("type")\<close>. The fields are checked
  in the schema's order and the first violation raises.
\<close>

type_synonym schema = "(string \<times> document) list"

fun is_str :: "pyval \<Rightarrow> bool" where
  "is_str (VStr _) = True" | "is_str _ = False"

text \<open>\<open>isinstance(value, (int, float))\<close> accepts a \<open>bool\<close>, a subclass of \<open>int\<close>.\<close>

fun is_number :: "pyval \<Rightarrow> bool" where
  "is_number (VInt _) = True" | "is_number (VBool _) = True" | "is_number _ = False"

fun is_bool :: "pyval \<Rightarrow> bool" where
  "is_bool (VBool _) = True" | "is_bool _ = False"

fun is_dict :: "pyval \<Rightarrow> bool" where
  "is_dict (VDict _) = True" | "is_dict _ = False"

fun is_list :: "pyval \<Rightarrow> bool" where
  "is_list (VList _) = True" | "is_list _ = False"

definition required :: "document \<Rightarrow> bool" where
  "required field_schema =
     truthy (case map_of field_schema ''required'' of None \<Rightarrow> VBool False | Some v \<Rightarrow> v)"

text \<open>The type test of one present field: the message of the violation, if any.\<close>

definition type_violation :: "string \<Rightarrow> document \<Rightarrow> pyval \<Rightarrow> string option" where
  "type_violation field field_schema v =
     (let field_type = dict_get field_schema ''type'' in
      if py_eq field_type (VStr ''string'') \<and> \<not> is_str v
        then Some (''Field '' @ field @ '' must be a string'')
      else if py_eq field_type (VStr ''number'') \<and> \<not> is_number v
        then Some (''Field '' @ field @ '' must be a number'')
      else if py_eq field_type (VStr ''boolean'') \<and> \<not> is_bool v
        then Some (''Field '' @ field @ '' must be a boolean'')
      else if py_eq field_type (VStr ''object'') \<and> \<not> is_dict v
        then Some (''Field '' @ field @ '' must be an object'')
      else if py_eq field_type (VStr ''array'') \<and> \<not> is_list v
        then Some (''Field '' @ field @ '' must be an array'')
      else None)"

fun validate_against_schema :: "document \<Rightarrow> schema \<Rightarrow> error + unit" where
  "validate_against_schema doc [] = Inr ()"
| "validate_against_schema doc ((field, field_schema) # rest) =
     (case map_of doc field of
        None \<Rightarrow>
          if required field_schema
          then Inl (ValidationError (''Missing required field: '' @ field))
          else validate_against_schema doc rest
      | Some v \<Rightarrow>
          (case type_violation field field_schema v of
             Some msg \<Rightarrow> Inl (ValidationError msg)
           | None \<Rightarrow> validate_against_schema doc rest))"

definition validate_document :: "(string \<times> schema) list \<Rightarrow> string \<Rightarrow> document \<Rightarrow> error + unit" where
  "validate_document schs collection doc =
     (case map_of schs collection of
        None \<Rightarrow> Inr ()
      | Some sch \<Rightarrow> if sch = [] then Inr () else validate_against_schema doc sch)"


section \<open>Query results (results.py)\<close>

text \<open>
  Documents are mutable objects shared by reference: a collection and a result hold
  references into the heap, \<open>doc.update\<close> writes through a reference, \<open>doc.copy()\<close>
  allocates a new object.

  \<open>QueryResult.__init__(self, documents)\<close> takes one positional argument; a call
  with further positional arguments raises \<open>TypeError\<close> before the body runs.
  \<open>extra\<close> is the number of further positional arguments of the call.
\<close>

type_synonym ref = nat

record QueryResult =
  documents :: "ref list"

definition QueryResult_call :: "ref list \<Rightarrow> nat \<Rightarrow> error + QueryResult" where
  "QueryResult_call docs extra = (if extra = 0 then Inr \<lparr>documents = docs\<rparr> else Inl TypeError)"

section \<open>The store (database.py)\<close>

text \<open>
  The persistence collaborator is modelled by the calls it receives: \<open>save\<close> with
  the collections as they are at that moment, and \<open>clear\<close>. A collaborator that
  fails is outside the model.
\<close>

datatype storage_call = Save "(string \<times> document list) list" | Clear

text \<open>
  The heap of document objects, and the attributes of an \<open>AtomicDB\<close> instance:
  \<open>_collections\<close>, \<open>_indexes\<close>, the \<open>_schemas\<close> of \<open>_schema\<close> and the calls made on
  \<open>_storage\<close>. \<open>Schema._metadata\<close> is written by \<open>insert\<close> and read by nothing in
  the store; it is not part of the state.
\<close>

record state =
  heap :: "ref \<Rightarrow> document"
  next_ref :: ref
  collections :: "(string \<times> ref list) list"
  indexes :: IndexManager
  schemas :: "(string \<times> schema) list"
  storage_log :: "storage_call list"
  storage_has_clear :: bool

definition AtomicDB_init :: state where
  "AtomicDB_init =
     \<lparr>heap = (\<lambda>r. []), next_ref = 0, collections = [(''default'', [])], indexes = [],
      schemas = [(''default'', [])], storage_log = [], storage_has_clear = True\<rparr>"

text \<open>The caller's \<open>{...}\<close> literal: a new document object.\<close>

definition new_document :: "state \<Rightarrow> document \<Rightarrow> ref \<times> state" where
  "new_document s doc = (next_ref s, s\<lparr>heap := (heap s)(next_ref s := doc), next_ref := Suc (next_ref s)\<rparr>)"

definition save :: "state \<Rightarrow> state" where
  "save self =
     self\<lparr>storage_log := storage_log self @
            [Save (map (\<lambda>(name, refs). (name, map (heap self) refs)) (collections self))]\<rparr>"

definition create_collection :: "state \<Rightarrow> string \<Rightarrow> schema \<Rightarrow> state" where
  "create_collection self name sch =
     (let s1 = self\<lparr>schemas := dict_set (schemas self) name sch\<rparr> in
      if map_of (collections s1) name = None
      then s1\<lparr>collections := collections s1 @ [(name, [])]\<rparr> else s1)"

definition AtomicDB_insert :: "state \<Rightarrow> ref \<Rightarrow> string \<Rightarrow> (error + nat) \<times> state" where
  "AtomicDB_insert self document collection =
     (case validate_document (schemas self) collection (heap self document) of
        Inl e \<Rightarrow> (Inl e, self)
      | Inr u \<Rightarrow>
          let coll = (case map_of (collections self) collection of None \<Rightarrow> [] | Some c \<Rightarrow> c)
                       @ [document];
              doc_id = length coll - 1;
              s1 = self\<lparr>collections := dict_set (collections self) collection coll\<rparr>
          in (case IndexManager_add_document (indexes s1) doc_id (heap s1 document) of
                (Inl e, im) \<Rightarrow> (Inl e, s1\<lparr>indexes := im\<rparr>)
              | (Inr u, im) \<Rightarrow> (Inr doc_id, save (s1\<lparr>indexes := im\<rparr>))))"

text \<open>
  \<open>[doc for doc in self._collections[collection] if query.match(doc)]\<close>: the
  references of the matching documents, not copies; a missing collection raises
  \<open>KeyError\<close>, and an exception of the predicate propagates.
\<close>

fun filter_docs :: "(ref \<Rightarrow> error + bool) \<Rightarrow> ref list \<Rightarrow> error + ref list" where
  "filter_docs p [] = Inr []"
| "filter_docs p (r # rs) =
     (case p r of
        Inl e \<Rightarrow> Inl e
      | Inr b \<Rightarrow> (case filter_docs p rs of
                   Inl e \<Rightarrow> Inl e
                 | Inr ms \<Rightarrow> Inr (if b then r # ms else ms)))"

definition full_scan :: "state \<Rightarrow> query_arg \<Rightarrow> string \<Rightarrow> error + ref list" where
  "full_scan self query collection =
     (case map_of (collections self) collection of
        None \<Rightarrow> Inl KeyError
      | Some coll \<Rightarrow> filter_docs (\<lambda>r. run_query query (heap self r)) coll)"

text \<open>
  \<open>get\<close>: the index branch calls \<open>self._indexes.find_one\<close>, a method
  \<open>IndexManager\<close> does not have (\<open>AttributeError\<close>); otherwise the full scan, and
  \<open>QueryResult(docs, self)\<close>.
\<close>

definition use_index :: "state \<Rightarrow> query_arg \<Rightarrow> bool" where
  "use_index self query =
     (case query of
        IsQuery q \<Rightarrow>
          (let conditions = Query_get_equality_conditions q in
           conditions \<noteq> [] \<and> IndexManager_has_index (indexes self) (map fst conditions))
      | IsCallable f \<Rightarrow> False)"


text \<open>
  \<open>[self._collections[collection][doc_id].copy() for doc_id in doc_ids
    if doc_id < len(self._collections[collection])]\<close>: a fresh copy for every position
  in range.
\<close>

fun copy_docs :: "state \<Rightarrow> ref list \<Rightarrow> nat list \<Rightarrow> ref list \<times> state" where
  "copy_docs s coll [] = ([], s)"
| "copy_docs s coll (i # ids) =
     (if i < length coll
      then (case new_document s (heap s (coll ! i)) of
              (r, s') \<Rightarrow> (case copy_docs s' coll ids of (rs, s'') \<Rightarrow> (r # rs, s'')))
      else copy_docs s coll ids)"

text \<open>
  \<open>search\<close>: \<open>search_docs\<close> is the list handed to \<open>QueryResult(docs, self)\<close>. The
  index branch iterates a set, in the order \<open>iter\<close> the interpreter gives it.
\<close>

definition index_for :: "state \<Rightarrow> query_arg \<Rightarrow> (Index \<times> document) option" where
  "index_for self query =
     (case query of
        IsQuery q \<Rightarrow>
          (let conditions = Query_get_equality_conditions q in
           if conditions \<noteq> [] \<and> IndexManager_has_index (indexes self) (map fst conditions)
           then map_option (\<lambda>ix. (ix, conditions))
                  (IndexManager_get_index (indexes self) (map fst conditions))
           else None)
      | IsCallable f \<Rightarrow> None)"

definition search_docs ::
  "(nat set \<Rightarrow> nat list) \<Rightarrow> state \<Rightarrow> query_arg \<Rightarrow> string \<Rightarrow> (error + ref list) \<times> state" where
  "search_docs iter self query collection =
     (case index_for self query of
        Some (ix, conditions) \<Rightarrow>
          (case Index_find_all ix (map snd conditions) of
             Inl e \<Rightarrow> (Inl e, self)
           | Inr doc_ids \<Rightarrow>
               if iter doc_ids = [] then (Inr [], self)
               else (case map_of (collections self) collection of
                       None \<Rightarrow> (Inl KeyError, self)
                     | Some coll \<Rightarrow>
                         (case copy_docs self coll (iter doc_ids) of
                            (docs, s') \<Rightarrow> (Inr docs, s'))))
      | None \<Rightarrow> (full_scan self query collection, self))"

definition AtomicDB_search ::
  "(nat set \<Rightarrow> nat list) \<Rightarrow> state \<Rightarrow> query_arg \<Rightarrow> string \<Rightarrow> (error + QueryResult) \<times> state" where
  "AtomicDB_search iter self query collection =
     (case search_docs iter self query collection of
        (Inl e, s') \<Rightarrow> (Inl e, s')
      | (Inr docs, s') \<Rightarrow> (QueryResult_call docs 1, s'))"



text \<open>
  \<open>update\<close>: the index branch calls \<open>self._indexes.find_all\<close>, which
  \<open>IndexManager\<close> does not have. The scan tests each document as it is when the
  loop reaches it, merges the updates into the object and tells the index manager
  the position with the old and new contents. An exception leaves the documents
  changed so far changed, and nothing is saved.
\<close>

fun update_loop ::
  "document \<Rightarrow> query_arg \<Rightarrow> nat \<Rightarrow> ref list \<Rightarrow> nat \<Rightarrow> state \<Rightarrow> (error + nat) \<times> state" where
  "update_loop flds query i [] count s = (Inr count, s)"
| "update_loop flds query i (r # rs) count s =
     (case run_query query (heap s r) of
        Inl e \<Rightarrow> (Inl e, s)
      | Inr matches \<Rightarrow>
          if matches then
            (let old_doc = heap s r;
                 s1 = s\<lparr>heap := (heap s)(r := dict_update (heap s r) flds)\<rparr>
             in (case IndexManager_update_document (indexes s1) i old_doc (heap s1 r) of
                   (Inl e, im) \<Rightarrow> (Inl e, s1\<lparr>indexes := im\<rparr>)
                 | (Inr u, im) \<Rightarrow> update_loop flds query (Suc i) rs (Suc count) (s1\<lparr>indexes := im\<rparr>)))
          else update_loop flds query (Suc i) rs count s)"

definition AtomicDB_update :: "state \<Rightarrow> document \<Rightarrow> query_arg \<Rightarrow> string \<Rightarrow> (error + nat) \<times> state" where
  "AtomicDB_update self flds query collection =
     (if use_index self query then (Inl AttributeError, self)
      else case map_of (collections self) collection of
             None \<Rightarrow> (Inl KeyError, self)
           | Some coll \<Rightarrow>
               (case update_loop flds query 0 coll 0 self of
                  (Inl e, s') \<Rightarrow> (Inl e, s')
                | (Inr count, s') \<Rightarrow> (Inr count, if count > 0 then save s' else s')))"

text \<open>
  \<open>remove\<close>: the \<open>while i < len(...)\<close> loop. On a match the document is popped and
  the index manager is told position \<open>i\<close> and the popped document; \<open>i\<close> stays. The
  heap is only read.
\<close>

function remove_loop ::
  "(ref \<Rightarrow> document) \<Rightarrow> query_arg \<Rightarrow> nat \<Rightarrow> nat \<Rightarrow> ref list \<Rightarrow> IndexManager
     \<Rightarrow> (error + nat) \<times> ref list \<times> IndexManager" where
  "remove_loop h query i count coll im =
     (if i < length coll then
        (case run_query query (h (coll ! i)) of
           Inl e \<Rightarrow> (Inl e, coll, im)
         | Inr matches \<Rightarrow>
             if matches then
               (case IndexManager_remove_document im i (h (coll ! i)) of
                  (Inl e, im') \<Rightarrow> (Inl e, take i coll @ drop (Suc i) coll, im')
                | (Inr u, im') \<Rightarrow>
                    remove_loop h query i (Suc count) (take i coll @ drop (Suc i) coll) im')
             else remove_loop h query (Suc i) count coll im)
      else (Inr count, coll, im))"
  by pat_completeness auto
termination
  by (relation "measure (\<lambda>(h, query, i, count, coll, im). length coll - i)") auto

definition AtomicDB_remove :: "state \<Rightarrow> query_arg \<Rightarrow> string \<Rightarrow> (error + nat) \<times> state" where
  "AtomicDB_remove self query collection =
     (case map_of (collections self) collection of
        None \<Rightarrow> (Inl KeyError, self)
      | Some coll \<Rightarrow>
          (case remove_loop (heap self) query 0 0 coll (indexes self) of
             (r, coll', im') \<Rightarrow>
               (let s' = self\<lparr>collections := dict_set (collections self) collection coll',
                               indexes := im'\<rparr>
                in (case r of
                      Inl e \<Rightarrow> (Inl e, s')
                    | Inr count \<Rightarrow> (Inr count, if count > 0 then save s' else s')))))"

definition AtomicDB_clear :: "state \<Rightarrow> string \<Rightarrow> state" where
  "AtomicDB_clear self collection =
     (let s1 = (if map_of (collections self) collection \<noteq> None
                then save (self\<lparr>collections := dict_set (collections self) collection []\<rparr>)
                else self)
      in if storage_has_clear s1 then s1\<lparr>storage_log := storage_log s1 @ [Clear]\<rparr> else s1)"

text \<open>
  \<open>create_index\<close>: the index is created, then every document of every collection
  is added under its position in its own collection.
\<close>

fun backfill :: "(ref \<Rightarrow> document) \<Rightarrow> nat \<Rightarrow> ref list \<Rightarrow> IndexManager \<Rightarrow> (error + unit) \<times> IndexManager" where
  "backfill h i [] im = (Inr (), im)"
| "backfill h i (r # rs) im =
     (case IndexManager_add_document im i (h r) of
        (Inl e, im') \<Rightarrow> (Inl e, im')
      | (Inr u, im') \<Rightarrow> backfill h (Suc i) rs im')"

fun backfill_all :: "(ref \<Rightarrow> document) \<Rightarrow> ref list list \<Rightarrow> IndexManager \<Rightarrow> (error + unit) \<times> IndexManager" where
  "backfill_all h [] im = (Inr (), im)"
| "backfill_all h (coll # colls) im =
     (case backfill h 0 coll im of
        (Inl e, im') \<Rightarrow> (Inl e, im')
      | (Inr u, im') \<Rightarrow> backfill_all h colls im')"

definition AtomicDB_create_index :: "state \<Rightarrow> string list \<Rightarrow> (error + unit) \<times> state" where
  "AtomicDB_create_index self flds =
     (case backfill_all (heap self) (map snd (collections self))
             (IndexManager_create_index (indexes self) flds) of
        (r, im) \<Rightarrow> (r, self\<lparr>indexes := im\<rparr>))"


section \<open>Sorting a result (results.py)\<close>

text \<open>
  \<open>sorted(self._documents, key=lambda x: x.get(field), reverse=reverse)\<close>. The
  interpreter's \<open>sorted\<close> is modelled by its contract: it is stable, it decides by
  \<open><\<close> on the keys alone, an exception of a comparison propagates, and
  \<open>reverse=True\<close> sorts the reversed list and reverses the outcome. The model is
  an insertion sort: each element goes behind the elements it is not smaller than.
\<close>

fun insort_py :: "pyval \<times> ref \<Rightarrow> (pyval \<times> ref) list \<Rightarrow> error + (pyval \<times> ref) list" where
  "insort_py x [] = Inr [x]"
| "insort_py x (y # ys) =
     (case py_lt (fst x) (fst y) of
        Inl e \<Rightarrow> Inl e
      | Inr lt \<Rightarrow>
          if lt then Inr (x # y # ys)
          else (case insort_py x ys of Inl e \<Rightarrow> Inl e | Inr zs \<Rightarrow> Inr (y # zs)))"

fun sort_into :: "(pyval \<times> ref) list \<Rightarrow> (pyval \<times> ref) list \<Rightarrow> error + (pyval \<times> ref) list" where
  "sort_into acc [] = Inr acc"
| "sort_into acc (x # xs) =
     (case insort_py x acc of Inl e \<Rightarrow> Inl e | Inr acc' \<Rightarrow> sort_into acc' xs)"

definition py_sorted :: "bool \<Rightarrow> (pyval \<times> ref) list \<Rightarrow> error + (pyval \<times> ref) list" where
  "py_sorted reverse xs =
     (if reverse
      then (case sort_into [] (rev xs) of Inl e \<Rightarrow> Inl e | Inr ys \<Rightarrow> Inr (rev ys))
      else sort_into [] xs)"

definition QueryResult_sort_by :: "(ref \<Rightarrow> document) \<Rightarrow> QueryResult \<Rightarrow> string \<Rightarrow> bool \<Rightarrow> error + QueryResult" where
  "QueryResult_sort_by h self field reverse =
     (case py_sorted reverse (map (\<lambda>r. (dict_get (h r) field, r)) (documents self)) of
        Inl e \<Rightarrow> Inl e
      | Inr sorted_docs \<Rightarrow> QueryResult_call (map snd sorted_docs) 0)"

section \<open>The connection pool (pool.py)\<close>

text \<open>
  A call returns, raises, or never returns. The pool is modelled one call at a
  time: a call runs to its end before the next one starts, and while a call waits
  on the queue no other call puts a handle into it, so that \<open>get(timeout=...)\<close> on
  an empty queue raises \<open>queue.Empty\<close>. Connections are numbered in the order of
  their creation. \<open>self._lock\<close> is a \<open>threading.Lock\<close>, which its holder cannot take a
  second time: \<open>lock_held\<close> says that a call which never returned holds it.
\<close>

datatype 'a outcome = Returned 'a | Raised error | Blocked

record pool =
  max_connections :: int
  available :: "nat list"
  in_use :: "nat list"
  lock_held :: bool
  created :: nat

definition create_connection :: "pool \<Rightarrow> nat outcome \<times> pool" where
  "create_connection self =
     (if lock_held self then (Blocked, self)
      else if int (length (in_use self) + length (available self)) \<ge> max_connections self
      then (Raised RuntimeError, self)
      else (Returned (created self),
            self\<lparr>available := available self @ [created self], created := Suc (created self)\<rparr>))"

definition ConnectionPool_init :: "int \<Rightarrow> error + pool" where
  "ConnectionPool_init m =
     (case create_connection
             \<lparr>max_connections = m, available = [], in_use = [], lock_held = False, created = 0\<rparr> of
        (Returned c, p) \<Rightarrow> Inr p
      | (Raised e, p) \<Rightarrow> Inl e
      | (Blocked, p) \<Rightarrow> Inl RuntimeError)"

text \<open>The last step of \<open>get_connection\<close>: \<open>with self._lock: self._in_use.append(conn)\<close>.\<close>

definition mark_in_use :: "nat \<Rightarrow> pool \<Rightarrow> nat outcome \<times> pool" where
  "mark_in_use conn self =
     (if lock_held self then (Blocked, self)
      else (Returned conn, self\<lparr>in_use := in_use self @ [conn]\<rparr>))"

text \<open>
  \<open>get_connection\<close>. When the queue is empty the call takes the lock and, still
  holding it, either calls \<open>_create_connection\<close>, which takes the lock itself, or
  raises \<open>queue.Empty\<close>; the handler of \<open>RuntimeError\<close> and \<open>queue.Empty\<close> waits on
  the queue once more, inside the lock.
\<close>

definition get_connection :: "pool \<Rightarrow> nat outcome \<times> pool" where
  "get_connection self =
     (case available self of
        c # cs \<Rightarrow> mark_in_use c (self\<lparr>available := cs\<rparr>)
      | [] \<Rightarrow>
          if lock_held self then (Blocked, self)
          else
            (case (if int (length (in_use self) + length (available self)) < max_connections self
                   then (case create_connection (self\<lparr>lock_held := True\<rparr>) of
                           (Returned c, s1) \<Rightarrow>
                             (case available s1 of
                                [] \<Rightarrow> (Raised Empty, s1)
                              | c' # cs \<Rightarrow> (Returned c', s1\<lparr>available := cs\<rparr>))
                         | (Raised e, s1) \<Rightarrow> (Raised e, s1)
                         | (Blocked, s1) \<Rightarrow> (Blocked, s1))
                   else (Raised Empty, self\<lparr>lock_held := True\<rparr>)) of
               (Returned c, s2) \<Rightarrow> mark_in_use c (s2\<lparr>lock_held := False\<rparr>)
             | (Blocked, s2) \<Rightarrow> (Blocked, s2)
             | (Raised e, s2) \<Rightarrow>
                 if e = RuntimeError \<or> e = Empty
                 then (case available s2 of
                         [] \<Rightarrow> (Raised Empty, s2\<lparr>lock_held := False\<rparr>)
                       | c' # cs \<Rightarrow> mark_in_use c' (s2\<lparr>available := cs, lock_held := False\<rparr>))
                 else (Raised e, s2\<lparr>lock_held := False\<rparr>)))"

definition return_connection :: "pool \<Rightarrow> nat \<Rightarrow> unit outcome \<times> pool" where
  "return_connection self conn =
     (if lock_held self then (Blocked, self)
      else if conn \<in> set (in_use self)
      then (Returned (), self\<lparr>in_use := remove1 conn (in_use self),
                              available := available self @ [conn]\<rparr>)
      else (Returned (), self))"

definition close_all :: "pool \<Rightarrow> unit outcome \<times> pool" where
  "close_all self =
     (if lock_held self then (Blocked, self)
      else (Returned (), self\<lparr>in_use := [], available := []\<rparr>))"

text \<open>A sequence of calls on the pool, and the state it leads to.\<close>

datatype pool_call = GetConnection | ReturnConnection nat | CloseAll

fun pool_step :: "pool \<Rightarrow> pool_call \<Rightarrow> pool" where
  "pool_step p GetConnection = snd (get_connection p)"
| "pool_step p (ReturnConnection c) = snd (return_connection p c)"
| "pool_step p CloseAll = snd (close_all p)"

definition run_calls :: "pool \<Rightarrow> pool_call list \<Rightarrow> pool" where
  "run_calls p calls = foldl pool_step p calls"


section \<open>Notions of the specification\<close>

text \<open>The documents a collection holds, in order; none for a collection that does not exist.\<close>

definition stored :: "state \<Rightarrow> string \<Rightarrow> ref list" where
  "stored self collection =
     (case map_of (collections self) collection of None \<Rightarrow> [] | Some coll \<Rightarrow> coll)"









text \<open>Querying the index on the given fields with the given values.\<close>

definition index_lookup :: "state \<Rightarrow> string list \<Rightarrow> pyval list \<Rightarrow> (error + nat set) option" where
  "index_lookup self flds vals =
     map_option (\<lambda>ix. Index_find_all ix vals) (IndexManager_get_index (indexes self) flds)"

text \<open>
  Insertion into a list sorted by a linear order, behind the elements the new one
  is not smaller than: what \<open>insort_py\<close> computes when no comparison raises.
\<close>

fun ins_after :: "('b \<Rightarrow> 'a::linorder) \<Rightarrow> 'b \<Rightarrow> 'b list \<Rightarrow> 'b list" where
  "ins_after f x [] = [x]"
| "ins_after f x (y # ys) = (if f x < f y then x # y # ys else y # ins_after f x ys)"

section \<open>Example states\<close>

text \<open>A store whose default collection holds one document, \<open>{"name": "John", "age": 30}\<close>.\<close>

definition db_one :: state where
  "db_one = AtomicDB_init\<lparr>heap := (\<lambda>r. [(''name'', VStr ''John''), (''age'', VInt 30)]),
       next_ref := 1, collections := [(''default'', [0])]\<rparr>"


definition any_doc :: "document \<Rightarrow> error + bool" where
  "any_doc doc = Inr True"


text \<open>
  The query \<open>name == n\<close>, and the store after \<open>create_index("name")\<close>,
  \<open>insert({"name": "A"})\<close> and \<open>insert({"name": "B"})\<close>; then after
  \<open>remove(name == "A")\<close>, or after \<open>update({"name": "C", "age": 7}, name == "A")\<close>.
\<close>

definition name_is :: "string \<Rightarrow> query_arg" where
  "name_is n = IsQuery (Field_eq ''name'' (VStr n))"

definition two_names :: state where
  "two_names =
     (let s0 = snd (AtomicDB_create_index AtomicDB_init [''name'']);
          s1 = snd (new_document s0 [(''name'', VStr ''A'')]);
          s2 = snd (AtomicDB_insert s1 0 ''default'');
          s3 = snd (new_document s2 [(''name'', VStr ''B'')])
      in snd (AtomicDB_insert s3 1 ''default''))"

definition after_remove :: state where
  "after_remove = snd (AtomicDB_remove two_names (name_is ''A'') ''default'')"


text \<open>Two documents, the second without the field \<open>age\<close>.\<close>

definition people :: "ref \<Rightarrow> document" where
  "people r = (if r = 0 then [(''name'', VStr ''Alice''), (''age'', VInt 30)]
               else [(''name'', VStr ''Bob'')])"

text \<open>
  The pool's bound, together with the fact that a call which never returned holds
  the lock only in a pool below its bound. And the pool of one connection, as
  constructed.
\<close>

definition pool_inv :: "pool \<Rightarrow> bool" where
  "pool_inv p =
     (int (length (available p) + length (in_use p)) \<le> max_connections p \<and>
      (\<not> lock_held p \<or> int (length (available p) + length (in_use p)) < max_connections p))"

definition pool_one :: pool where
  "pool_one = \<lparr>max_connections = 1, available = [0], in_use = [], lock_held = False, created = 1\<rparr>"

section \<open>Basic facts\<close>


lemma map_of_dict_set: "map_of (dict_set d k v) = (map_of d)(k \<mapsto> v)"
  by (induction d k v rule: dict_set.induct) auto

lemma index_for_None: "index_for self query = None"
  by (cases query) (simp_all add: index_for_def Query_get_equality_conditions_def)

lemma use_index_False: "\<not> use_index self query"
  by (cases query) (simp_all add: use_index_def Query_get_equality_conditions_def)

lemma search_docs_full_scan:
  "search_docs iter self query collection = (full_scan self query collection, self)"
  by (simp add: search_docs_def index_for_None)

subsection \<open>Schema validation\<close>






subsection \<open>Index maintenance\<close>














subsection \<open>The loops of remove and update\<close>








section \<open>Equality-condition extraction and the planner\<close>

text \<open>
  C1, as stated, fails: for the conjunction of the equality leaves
  \<open>name == "John"\<close> and \<open>age == 30\<close> the extraction does not return the union of the
  two single-field mappings.
\<close>

theorem extraction_counterexample:
  "Query_get_equality_conditions
     (Query_and (Field_eq ''name'' (VStr ''John'')) (Field_eq ''age'' (VInt 30)))
   \<noteq> [(''name'', VStr ''John''), (''age'', VInt 30)]"
  by (simp add: Query_get_equality_conditions_def)

text \<open>
  C1, amended: equality-condition extraction returns the empty mapping for every
  predicate, conjunctions of equality leaves included, as it does for predicates
  built with OR, NOT, range, regex or containment; no index is ever selected, and
  the documents \<open>search\<close> collects are those of the full scan that evaluates the
  predicate, whatever indexes exist. For a conjunction of two equality leaves the
  full scan yields the documents whose two fields equal the literals.
\<close>

theorem extraction_always_empty:
  "Query_get_equality_conditions q = [] \<and>
   Query_get_equality_conditions (Query_and (Field_eq f v) (Field_eq g w)) = [] \<and>
   Query_get_equality_conditions (Query_or q q') = [] \<and>
   Query_get_equality_conditions (Query_invert q) = [] \<and>
   Query_get_equality_conditions (Field_gt f v) = [] \<and>
   Query_get_equality_conditions (Field_matches re_match f pat) = [] \<and>
   Query_get_equality_conditions (Field_contains f v) = [] \<and>
   index_for self (IsQuery q) = None \<and>
   search_docs iter self (IsQuery q) collection = (full_scan self (IsQuery q) collection, self) \<and>
   full_scan self (IsQuery (Query_and (Field_eq f v) (Field_eq g w))) collection =
     (case map_of (collections self) collection of
        None \<Rightarrow> Inl KeyError
      | Some coll \<Rightarrow>
          Inr (filter (\<lambda>r. py_eq (dict_get (heap self r) f) v \<and> py_eq (dict_get (heap self r) g) w) coll))"
proof -
  have scan: "filter_docs (\<lambda>r. Query_match (Query_and (Field_eq f v) (Field_eq g w)) (heap self r)) coll
      = Inr (filter (\<lambda>r. py_eq (dict_get (heap self r) f) v \<and> py_eq (dict_get (heap self r) g) w) coll)"
    for coll
    by (induction coll) (simp_all add: Query_match_def Query_and_def Field_eq_def)
  show ?thesis
    by (simp add: Query_get_equality_conditions_def index_for_None search_docs_full_scan
        full_scan_def scan split: option.splits)
qed

section \<open>The result constructor in get, search and all\<close>




section \<open>Index consistency under removal\<close>

text \<open>
  C3, at a state the code reaches: after \<open>create_index("name")\<close> and the insertion
  of the documents A and B, the index answers \<open>name == "B"\<close> with position 1, where B
  is. After \<open>remove(name == "A")\<close> the collection holds B alone, at position 0, and
  the index still answers \<open>name == "B"\<close> with position 1, where no document is.
\<close>

theorem index_stale_after_remove:
  "map (heap two_names) (stored two_names ''default'')
     = [[(''name'', VStr ''A'')], [(''name'', VStr ''B'')]] \<and>
   index_lookup two_names [''name''] [VStr ''B''] = Some (Inr {1}) \<and>
   fst (AtomicDB_remove two_names (name_is ''A'') ''default'') = Inr 1 \<and>
   map (heap after_remove) (stored after_remove ''default'') = [[(''name'', VStr ''B'')]] \<and>
   index_lookup after_remove [''name''] [VStr ''B''] = Some (Inr {1})"
proof -
  have "map (heap two_names) (stored two_names ''default'')
     = [[(''name'', VStr ''A'')], [(''name'', VStr ''B'')]]"
    by code_simp
  moreover have "index_lookup two_names [''name''] [VStr ''B''] = Some (Inr {1})"
    by code_simp
  moreover have "fst (AtomicDB_remove two_names (name_is ''A'') ''default'') = Inr 1"
    by code_simp
  moreover have "map (heap after_remove) (stored after_remove ''default'') = [[(''name'', VStr ''B'')]]"
    by code_simp
  moreover have "index_lookup after_remove [''name''] [VStr ''B''] = Some (Inr {1})"
    by code_simp
  ultimately show ?thesis by blast
qed

section \<open>What a search hands out\<close>

text \<open>
  C4, at the one-document store with the callable \<open>lambda x: True\<close>: the list
  \<open>search\<close> builds on its full-scan branch holds the stored document object itself,
  reference 0, not a copy; the call then raises \<open>TypeError\<close> and returns no result
  set; and a following \<open>update({"age": 31}, ...)\<close> changes what reference 0 holds.
\<close>

theorem search_collects_stored_objects:
  "stored db_one ''default'' = [0] \<and>
   search_docs iter db_one (IsCallable any_doc) ''default'' = (Inr [0], db_one) \<and>
   fst (AtomicDB_search iter db_one (IsCallable any_doc) ''default'') = Inl TypeError \<and>
   heap db_one 0 = [(''name'', VStr ''John''), (''age'', VInt 30)] \<and>
   fst (AtomicDB_update db_one [(''age'', VInt 31)] (IsCallable any_doc) ''default'') = Inr 1 \<and>
   heap (snd (AtomicDB_update db_one [(''age'', VInt 31)] (IsCallable any_doc) ''default'')) 0
     = [(''name'', VStr ''John''), (''age'', VInt 31)]"
proof -
  have st: "stored db_one ''default'' = [0]"
    by (simp add: stored_def db_one_def AtomicDB_init_def)
  have sd: "search_docs iter db_one (IsCallable any_doc) ''default'' = (Inr [0], db_one)"
    by (simp add: search_docs_full_scan full_scan_def db_one_def AtomicDB_init_def any_doc_def)
  then have se: "fst (AtomicDB_search iter db_one (IsCallable any_doc) ''default'') = Inl TypeError"
    by (simp add: AtomicDB_search_def QueryResult_call_def)
  have h0: "heap db_one 0 = [(''name'', VStr ''John''), (''age'', VInt 30)]"
    by (simp add: db_one_def AtomicDB_init_def)
  have up: "AtomicDB_update db_one [(''age'', VInt 31)] (IsCallable any_doc) ''default''
      = (Inr 1, save (db_one\<lparr>heap := (heap db_one)(0 := [(''name'', VStr ''John''), (''age'', VInt 31)])\<rparr>))"
    by (simp add: AtomicDB_update_def use_index_False db_one_def AtomicDB_init_def any_doc_def
        IndexManager_update_document_def Let_def)
  from st sd se h0 up show ?thesis by (simp add: save_def)
qed

section \<open>Insertion and schema validation\<close>



section \<open>Removal\<close>



section \<open>Update\<close>



section \<open>The bound of the connection pool\<close>

lemma init_pool_inv: "ConnectionPool_init m = Inr p \<Longrightarrow> pool_inv p \<and> max_connections p = m"
  by (auto simp: ConnectionPool_init_def create_connection_def pool_inv_def split: if_splits)

lemma get_connection_inv:
  "pool_inv p \<Longrightarrow>
   pool_inv (snd (get_connection p)) \<and> max_connections (snd (get_connection p)) = max_connections p"
  by (cases "available p")
     (auto simp: get_connection_def create_connection_def mark_in_use_def pool_inv_def)

lemma length_remove1_int: "x \<in> set xs \<Longrightarrow> int (length (remove1 x xs)) = int (length xs) - 1"
  by (induction xs) auto

lemma return_connection_inv:
  assumes "pool_inv p"
  shows "pool_inv (snd (return_connection p c)) \<and>
         max_connections (snd (return_connection p c)) = max_connections p"
proof (cases "c \<in> set (in_use p)")
  case True
  then have "int (length (remove1 c (in_use p))) = int (length (in_use p)) - 1"
    by (rule length_remove1_int)
  with True assms show ?thesis
    by (simp add: return_connection_def pool_inv_def)
next
  case False
  then show ?thesis
    using assms by (auto simp: return_connection_def pool_inv_def)
qed

lemma close_all_inv:
  "pool_inv p \<Longrightarrow>
   pool_inv (snd (close_all p)) \<and> max_connections (snd (close_all p)) = max_connections p"
  by (auto simp: close_all_def pool_inv_def)

lemma pool_step_inv:
  "pool_inv p \<Longrightarrow> pool_inv (pool_step p call) \<and> max_connections (pool_step p call) = max_connections p"
  by (cases call) (simp_all add: get_connection_inv return_connection_inv close_all_inv)

lemma run_calls_inv:
  "pool_inv p \<Longrightarrow> pool_inv (run_calls p calls) \<and> max_connections (run_calls p calls) = max_connections p"
  unfolding run_calls_def
proof (induction calls arbitrary: p)
  case Nil
  then show ?case by simp
next
  case (Cons call calls)
  from pool_step_inv[OF Cons.prems, of call] Cons.IH[of "pool_step p call"]
  show ?case by simp
qed

lemma get_connection_exhausted:
  assumes "pool_inv p" and "available p = []" and "max_connections p \<le> int (length (in_use p))"
  shows "get_connection p = (Raised Empty, p)"
proof -
  from assms have nl: "\<not> lock_held p" by (auto simp: pool_inv_def)
  then have "p\<lparr>lock_held := False\<rparr> = p" by (cases p) simp
  with assms nl show ?thesis
    by (simp add: get_connection_def)
qed

text \<open>
  C8: from a pool that was constructed, after any sequence of \<open>get_connection\<close>,
  \<open>return_connection\<close> and \<open>close_all\<close> calls, the available and the in-use
  handles together number at most \<open>max_connections\<close>; and in such a state, if no
  handle is available and the in-use handles have reached \<open>max_connections\<close>,
  \<open>get_connection\<close> raises \<open>queue.Empty\<close>, leaves the pool as it is and returns no
  handle.
\<close>

theorem pool_bound:
  assumes "ConnectionPool_init m = Inr p0"
  shows "int (length (available (run_calls p0 calls)) + length (in_use (run_calls p0 calls))) \<le> m \<and>
         max_connections (run_calls p0 calls) = m \<and>
         (available (run_calls p0 calls) = [] \<and> m \<le> int (length (in_use (run_calls p0 calls))) \<longrightarrow>
            get_connection (run_calls p0 calls) = (Raised Empty, run_calls p0 calls))"
proof -
  from init_pool_inv[OF assms] have "pool_inv p0" and m: "max_connections p0 = m" by simp_all
  from run_calls_inv[OF this(1), of calls] m
  have inv: "pool_inv (run_calls p0 calls)" and mx: "max_connections (run_calls p0 calls) = m"
    by simp_all
  from inv mx have "int (length (available (run_calls p0 calls)) + length (in_use (run_calls p0 calls))) \<le> m"
    by (simp add: pool_inv_def)
  moreover have "get_connection (run_calls p0 calls) = (Raised Empty, run_calls p0 calls)"
    if "available (run_calls p0 calls) = []" and "m \<le> int (length (in_use (run_calls p0 calls)))"
    using get_connection_exhausted[OF inv that(1)] that(2) mx by simp
  ultimately show ?thesis using mx by blast
qed

text \<open>
  C8 at a pool of one connection: it is constructed; after one \<open>get_connection\<close>
  no handle is available and one is in use; the bound holds and the next
  \<open>get_connection\<close> raises \<open>queue.Empty\<close>.
\<close>

theorem pool_bound_witness:
  "ConnectionPool_init 1 = Inr pool_one \<and>
   available (run_calls pool_one [GetConnection]) = [] \<and>
   1 \<le> int (length (in_use (run_calls pool_one [GetConnection]))) \<and>
   int (length (available (run_calls pool_one [GetConnection]))
        + length (in_use (run_calls pool_one [GetConnection]))) \<le> 1 \<and>
   get_connection (run_calls pool_one [GetConnection])
     = (Raised Empty, run_calls pool_one [GetConnection])"
proof -
  have i: "ConnectionPool_init 1 = Inr pool_one"
    by (simp add: ConnectionPool_init_def create_connection_def pool_one_def)
  have r: "run_calls pool_one [GetConnection]
      = \<lparr>max_connections = 1, available = [], in_use = [0], lock_held = False, created = 1\<rparr>"
    by (simp add: run_calls_def get_connection_def mark_in_use_def pool_one_def)
  have a: "available (run_calls pool_one [GetConnection]) = []" by (simp add: r)
  have u: "1 \<le> int (length (in_use (run_calls pool_one [GetConnection])))" by (simp add: r)
  from pool_bound[OF i, of "[GetConnection]"] i a u show ?thesis by blast
qed

section \<open>Sorting a result by a field\<close>

text \<open>
  When the keys of the documents compare without raising, as a linear order on
  their images under \<open>proj\<close>, \<open>sort_by\<close> returns the documents sorted by key,
  ascending or descending, with the documents of equal key in their original
  order.
\<close>

lemma insort_py_ins_after:
  "\<forall>y \<in> set acc. py_lt (fst x) (fst y) = Inr (f x < f y) \<Longrightarrow>
   insort_py x acc = Inr (ins_after f x acc)"
  by (induction acc) auto

lemma set_ins_after: "set (ins_after f x acc) = insert x (set acc)"
  by (induction acc) auto

lemma sorted_ins_after: "sorted (map f acc) \<Longrightarrow> sorted (map f (ins_after f x acc))"
  by (induction acc) (auto simp: set_ins_after)

lemma filter_ins_after:
  "sorted (map f acc) \<Longrightarrow>
   filter (\<lambda>y. f y = k) (ins_after f x acc)
     = filter (\<lambda>y. f y = k) acc @ (if f x = k then [x] else [])"
proof (induction acc)
  case Nil
  then show ?case by simp
next
  case (Cons y ys)
  show ?case
  proof (cases "f x < f y")
    case True
    with Cons.prems have "\<forall>z \<in> set (y # ys). f x < f z" by auto
    then have "f x = k \<Longrightarrow> filter (\<lambda>y. f y = k) (y # ys) = []"
      by (auto simp: filter_empty_conv)
    with True show ?thesis by auto
  next
    case False
    with Cons show ?thesis by auto
  qed
qed

lemma sort_into_stable:
  "\<forall>a \<in> set acc \<union> set xs. \<forall>b \<in> set acc \<union> set xs. py_lt (fst a) (fst b) = Inr (f a < f b) \<Longrightarrow>
   sorted (map f acc) \<Longrightarrow>
   \<exists>ys. sort_into acc xs = Inr ys \<and> sorted (map f ys) \<and>
        (\<forall>k. filter (\<lambda>y. f y = k) ys = filter (\<lambda>y. f y = k) acc @ filter (\<lambda>y. f y = k) xs)"
proof (induction xs arbitrary: acc)
  case Nil
  then show ?case by simp
next
  case (Cons x xs)
  have step: "insort_py x acc = Inr (ins_after f x acc)"
    by (rule insort_py_ins_after) (use Cons.prems(1) in auto)
  have cmp: "\<forall>a \<in> set (ins_after f x acc) \<union> set xs. \<forall>b \<in> set (ins_after f x acc) \<union> set xs.
      py_lt (fst a) (fst b) = Inr (f a < f b)"
    using Cons.prems(1) by (auto simp: set_ins_after)
  from Cons.IH[OF cmp sorted_ins_after[OF Cons.prems(2)]] obtain ys where
    ys: "sort_into (ins_after f x acc) xs = Inr ys" "sorted (map f ys)"
      "\<forall>k. filter (\<lambda>y. f y = k) ys
          = filter (\<lambda>y. f y = k) (ins_after f x acc) @ filter (\<lambda>y. f y = k) xs"
    by blast
  have "filter (\<lambda>y. f y = k) ys = filter (\<lambda>y. f y = k) acc @ filter (\<lambda>y. f y = k) (x # xs)" for k
    using ys(3) filter_ins_after[OF Cons.prems(2), of k x] by simp
  with ys step show ?case
    by simp
qed

lemma py_sorted_stable:
  assumes "\<forall>a \<in> set xs. \<forall>b \<in> set xs. py_lt (fst a) (fst b) = Inr (f a < f b)"
  shows "\<exists>ys. py_sorted reverse xs = Inr ys \<and>
           (if reverse then sorted (rev (map f ys)) else sorted (map f ys)) \<and>
           (\<forall>k. filter (\<lambda>y. f y = k) ys = filter (\<lambda>y. f y = k) xs)"
proof (cases reverse)
  case False
  from sort_into_stable[of "[]" xs f] assms obtain ys where
    "sort_into [] xs = Inr ys" "sorted (map f ys)"
    "\<forall>k. filter (\<lambda>y. f y = k) ys = filter (\<lambda>y. f y = k) xs"
    by auto
  with False show ?thesis by (simp add: py_sorted_def)
next
  case True
  from sort_into_stable[of "[]" "rev xs" f] assms obtain ys where
    ys: "sort_into [] (rev xs) = Inr ys" "sorted (map f ys)"
    "\<forall>k. filter (\<lambda>y. f y = k) ys = filter (\<lambda>y. f y = k) (rev xs)"
    by auto
  have "filter (\<lambda>y. f y = k) (rev ys) = filter (\<lambda>y. f y = k) xs" for k
    using ys(3)[rule_format, of k] by (simp add: rev_filter[symmetric])
  with True ys show ?thesis
    by (simp add: py_sorted_def rev_map)
qed

lemma sort_by_stable:
  assumes "\<forall>a \<in> set (documents self). \<forall>b \<in> set (documents self).
             py_lt (dict_get (h a) field) (dict_get (h b) field)
               = Inr (proj (dict_get (h a) field) < (proj (dict_get (h b) field) :: 'a::linorder))"
  shows "\<exists>docs. QueryResult_sort_by h self field reverse = Inr \<lparr>documents = docs\<rparr> \<and>
           (if reverse then sorted (rev (map (\<lambda>r. proj (dict_get (h r) field)) docs))
            else sorted (map (\<lambda>r. proj (dict_get (h r) field)) docs)) \<and>
           (\<forall>k. filter (\<lambda>r. proj (dict_get (h r) field) = k) docs
                = filter (\<lambda>r. proj (dict_get (h r) field) = k) (documents self))"
proof -
  let ?key = "\<lambda>r. dict_get (h r) field"
  let ?xs = "map (\<lambda>r. (?key r, r)) (documents self)"
  let ?f = "\<lambda>y :: pyval \<times> ref. proj (fst y)"
  have "\<forall>a \<in> set ?xs. \<forall>b \<in> set ?xs. py_lt (fst a) (fst b) = Inr (?f a < ?f b)"
    using assms by auto
  from py_sorted_stable[OF this, of reverse] obtain ys where
    ys: "py_sorted reverse ?xs = Inr ys"
      "if reverse then sorted (rev (map ?f ys)) else sorted (map ?f ys)"
      "\<forall>k. filter (\<lambda>y. ?f y = k) ys = filter (\<lambda>y. ?f y = k) ?xs"
    by blast
  have sub: "fst y = ?key (snd y)" if "y \<in> set ys" for y
  proof -
    from that have "y \<in> set (filter (\<lambda>z. ?f z = ?f y) ys)" by simp
    with ys(3) have "y \<in> set ?xs" by auto
    then show ?thesis by auto
  qed
  then have m: "map ?f ys = map (\<lambda>r. proj (?key r)) (map snd ys)"
    by simp
  have fl: "filter (\<lambda>r. proj (?key r) = k) (map snd ys)
      = filter (\<lambda>r. proj (?key r) = k) (documents self)" for k
  proof -
    have "filter (\<lambda>r. proj (?key r) = k) (map snd ys)
        = map snd (filter (\<lambda>y. proj (?key (snd y)) = k) ys)"
      by (simp add: filter_map o_def)
    also have "filter (\<lambda>y. proj (?key (snd y)) = k) ys = filter (\<lambda>y. ?f y = k) ys"
      by (rule filter_cong) (simp_all add: sub)
    also have "\<dots> = filter (\<lambda>y. ?f y = k) ?xs" using ys(3) by simp
    also have "map snd \<dots> = filter (\<lambda>r. proj (?key r) = k) (documents self)"
      by (simp add: filter_map o_def)
    finally show ?thesis .
  qed
  from ys(1) have "QueryResult_sort_by h self field reverse = Inr \<lparr>documents = map snd ys\<rparr>"
    by (simp add: QueryResult_sort_by_def QueryResult_call_def)
  with ys(2) m fl show ?thesis
    by (cases reverse) (auto simp: rev_map)
qed

text \<open>
  C9, at a result of two documents of which the second has no field \<open>age\<close>:
  \<open>sort_by("age")\<close> raises \<open>TypeError\<close>, ascending or descending and in either
  order of the two documents; the document without the field gets no place.
\<close>

theorem sort_by_missing_field_raises:
  "QueryResult_sort_by people \<lparr>documents = [0, 1]\<rparr> ''age'' False = Inl TypeError \<and>
   QueryResult_sort_by people \<lparr>documents = [0, 1]\<rparr> ''age'' True = Inl TypeError \<and>
   QueryResult_sort_by people \<lparr>documents = [1, 0]\<rparr> ''age'' False = Inl TypeError"
  by (simp add: QueryResult_sort_by_def py_sorted_def people_def dict_get_def)

section \<open>Clearing a collection\<close>

text \<open>
  C10: \<open>clear\<close> leaves the index manager exactly as it was, for every state and
  collection name: every index lookup answers as before. The heap is untouched,
  and the collection's list, if the collection exists, becomes empty.
\<close>

theorem clear_keeps_indexes:
  "indexes (AtomicDB_clear self collection) = indexes self \<and>
   (\<forall>flds vals. index_lookup (AtomicDB_clear self collection) flds vals = index_lookup self flds vals) \<and>
   heap (AtomicDB_clear self collection) = heap self \<and>
   map_of (collections (AtomicDB_clear self collection)) collection =
     map_option (\<lambda>c. []) (map_of (collections self) collection)"
  by (auto simp: AtomicDB_clear_def save_def Let_def map_of_dict_set index_lookup_def)

text \<open>
  C10 at the two-document store with the index on \<open>name\<close>: after \<open>clear\<close> the
  default collection is empty and the index still answers \<open>name == "B"\<close> with
  position 1.
\<close>

theorem clear_keeps_indexes_witness:
  "stored (AtomicDB_clear two_names ''default'') ''default'' = [] \<and>
   index_lookup (AtomicDB_clear two_names ''default'') [''name''] [VStr ''B''] = Some (Inr {1})"
proof -
  have c: "map_of (collections two_names) ''default'' = Some [0, 1]" by code_simp
  have l: "index_lookup two_names [''name''] [VStr ''B''] = Some (Inr {1})" by code_simp
  from clear_keeps_indexes[of two_names "''default''"] c l show ?thesis
    by (simp add: stored_def)
qed

end
